theory Spec2Isabelle
  imports Complex_Main "HOL-Library.Word"
begin

section \<open>The goat-monitor RPC polling core\<close>

text \<open>
  A shallow embedding of \<^verbatim>\<open>monitoring/rpc/client.go\<close> (the JSON-RPC client and its hex
  decoder), of \<^verbatim>\<open>GoatCollector.Collect\<close> and of \<^verbatim>\<open>healthHandler\<close>.

  Go functions that return \<^verbatim>\<open>(value, error)\<close> are modelled as functions returning a pair
  whose second component is \<open>None\<close> for a nil error: the callers in this program read the
  value even when the error is not nil, so the pair is kept as the code has it.
\<close>

type_synonym uint64 = "64 word"

subsection \<open>Errors\<close>

text \<open>
  One constructor for each \<^verbatim>\<open>fmt.Errorf\<close> of \<^verbatim>\<open>client.go\<close>. An error wrapped with
  \<^verbatim>\<open>%w\<close> comes from the Go library and is carried as its message.
\<close>

datatype go_error =
    RequestError string string      \<comment> \<open>\<^verbatim>\<open>"RPC request to %s: %w"\<close>, endpoint and cause\<close>
  | ReadBodyError string            \<comment> \<open>\<^verbatim>\<open>"read response body: %w"\<close>\<close>
  | HTTPStatusError int string      \<comment> \<open>\<^verbatim>\<open>"RPC returned HTTP %d: %s"\<close>, status and body\<close>
  | UnmarshalResponseError string   \<comment> \<open>\<^verbatim>\<open>"unmarshal response: %w"\<close>\<close>
  | RemoteError int string          \<comment> \<open>\<^verbatim>\<open>"RPC error %d: %s"\<close>, remote code and message\<close>
  | UnmarshalBlockNumberError string \<comment> \<open>\<^verbatim>\<open>"unmarshal block number: %w"\<close>\<close>
  | UnmarshalChainIDError string    \<comment> \<open>\<^verbatim>\<open>"unmarshal chain id: %w"\<close>\<close>
  | UnmarshalSyncProgressError string \<comment> \<open>\<^verbatim>\<open>"unmarshal sync progress: %w"\<close>\<close>
  | InvalidHexError string          \<comment> \<open>\<^verbatim>\<open>"invalid hex value: %s"\<close>, the input as given\<close>

subsection \<open>The hex decoder\<close>

text \<open>\<^verbatim>\<open>stripHexPrefix\<close>: drops a leading \<^verbatim>\<open>0x\<close> or \<^verbatim>\<open>0X\<close> when the string has one.\<close>

definition stripHexPrefix :: "string \<Rightarrow> string" where
  "stripHexPrefix s =
     (if length s \<ge> 2 \<and> (take 2 s = ''0x'' \<or> take 2 s = ''0X'') then drop 2 s else s)"

text \<open>
  \<^verbatim>\<open>math/big\<close> of the Go library, as far as \<^verbatim>\<open>parseHexUint64\<close> uses it. A \<^verbatim>\<open>big.Int\<close>
  is a sign and a magnitude. \<^verbatim>\<open>SetString(s, base)\<close> with a base other than 0 reads an
  optional sign (\<^verbatim>\<open>scanSign\<close>), then digits of the base (\<^verbatim>\<open>nat.scan\<close>: no prefix and
  no underscores are accepted when the base is given), needs at least one digit and needs
  the whole string to be consumed. \<^verbatim>\<open>Uint64()\<close> returns the low 64 bits of the magnitude
  (\<^verbatim>\<open>low64(x.abs)\<close>); it looks neither at the sign nor at the size.
\<close>

record big_Int =
  Int_neg :: bool
  Int_abs :: nat

text \<open>The digit value of a byte, from the \<^verbatim>\<open>switch\<close> of \<^verbatim>\<open>nat.scan\<close>
  (\<^verbatim>\<open>MaxBase\<close> is 62, \<^verbatim>\<open>maxBaseSmall\<close> is 36).\<close>

definition digitVal :: "nat \<Rightarrow> char \<Rightarrow> nat" where
  "digitVal b ch =
     (let c = (of_char ch :: nat) in
      if 48 \<le> c \<and> c \<le> 57 then c - 48
      else if 97 \<le> c \<and> c \<le> 122 then c - 97 + 10
      else if 65 \<le> c \<and> c \<le> 90 then (if b \<le> 36 then c - 65 + 10 else c - 65 + 36)
      else 62 + 1)"

text \<open>The digit loop of \<^verbatim>\<open>nat.scan\<close>: the magnitude read so far, the number of digits
  read, and the input left when a byte that is not a digit of the base stops the loop.\<close>

fun scanDigits :: "nat \<Rightarrow> string \<Rightarrow> nat \<Rightarrow> nat \<Rightarrow> nat \<times> nat \<times> string" where
  "scanDigits b [] z count = (z, count, [])"
| "scanDigits b (ch # r) z count =
     (if digitVal b ch \<ge> b then (z, count, ch # r)
      else scanDigits b r (z * b + digitVal b ch) (count + 1))"

definition scanSign :: "string \<Rightarrow> (bool \<times> string) option" where
  "scanSign r =
     (case r of
        [] \<Rightarrow> None
      | ch # r' \<Rightarrow>
          if ch = CHR ''-'' then Some (True, r')
          else if ch = CHR ''+'' then Some (False, r')
          else Some (False, ch # r'))"

definition SetString :: "string \<Rightarrow> nat \<Rightarrow> big_Int option" where
  "SetString s base =
     (case scanSign s of
        None \<Rightarrow> None
      | Some (negative, r) \<Rightarrow>
          (case scanDigits base r 0 0 of
             (z, count, rest) \<Rightarrow>
               if count = 0 then None
               else if rest \<noteq> [] then None
               else Some \<lparr>Int_neg = (z \<noteq> 0 \<and> negative), Int_abs = z\<rparr>))"

definition Uint64 :: "big_Int \<Rightarrow> uint64" where
  "Uint64 x = word_of_nat (Int_abs x)"

text \<open>\<^verbatim>\<open>parseHexUint64\<close>.\<close>

definition parseHexUint64 :: "string \<Rightarrow> uint64 \<times> go_error option" where
  "parseHexUint64 hex =
     (case SetString (stripHexPrefix hex) 16 of
        None \<Rightarrow> (0, Some (InvalidHexError hex))
      | Some n \<Rightarrow> (Uint64 n, None))"

subsection \<open>JSON values and the decoders of \<^verbatim>\<open>encoding/json\<close>\<close>

text \<open>
  A \<^verbatim>\<open>json.RawMessage\<close> taken from a decoded envelope holds the text of one JSON value,
  or nothing when the envelope had no \<^verbatim>\<open>result\<close> member; it is modelled as
  \<open>json option\<close>, the value already read. A number keeps its literal.
\<close>

datatype json =
    JNull
  | JBool bool
  | JNumber string
  | JString string
  | JArray "json list"
  | JObject "(string \<times> json) list"

text \<open>The \<^verbatim>\<open>Value\<close> that \<^verbatim>\<open>json.UnmarshalTypeError\<close> reports, and its message.\<close>

fun jsonKind :: "json \<Rightarrow> string" where
  "jsonKind JNull = ''null''"
| "jsonKind (JBool b) = ''bool''"
| "jsonKind (JNumber n) = ''number''"
| "jsonKind (JString s) = ''string''"
| "jsonKind (JArray xs) = ''array''"
| "jsonKind (JObject kvs) = ''object''"

definition UnmarshalTypeError :: "json \<Rightarrow> string \<Rightarrow> string" where
  "UnmarshalTypeError v ty =
     ''json: cannot unmarshal '' @ jsonKind v @ '' into Go value of type '' @ ty"

text \<open>
  \<^verbatim>\<open>json.Unmarshal(result, &x)\<close> for the three targets the client uses; each returns
  what \<^verbatim>\<open>x\<close> (zero before the call) holds afterwards and the error. Empty input is an
  error; \<^verbatim>\<open>null\<close> leaves a \<^verbatim>\<open>bool\<close>, a \<^verbatim>\<open>string\<close> or a map as it was, without
  error; a value of another kind is a type error.
\<close>

fun unmarshalBool :: "json option \<Rightarrow> bool \<times> string option" where
  "unmarshalBool None = (False, Some ''unexpected end of JSON input'')"
| "unmarshalBool (Some JNull) = (False, None)"
| "unmarshalBool (Some (JBool b)) = (b, None)"
| "unmarshalBool (Some v) = (False, Some (UnmarshalTypeError v ''bool''))"

fun unmarshalString :: "json option \<Rightarrow> string \<times> string option" where
  "unmarshalString None = ([], Some ''unexpected end of JSON input'')"
| "unmarshalString (Some JNull) = ([], None)"
| "unmarshalString (Some (JString s)) = (s, None)"
| "unmarshalString (Some v) = ([], Some (UnmarshalTypeError v ''string''))"

text \<open>
  The members of an object decoded into a \<^verbatim>\<open>map[string]string\<close>, in order: a later
  member with the same key replaces the earlier one, a \<^verbatim>\<open>null\<close> member is stored as the
  empty string, a member of another kind is stored as the empty string and is a type
  error, of which the decoder keeps the first and goes on.
\<close>

fun unmarshalMembers ::
  "(string \<times> json) list \<Rightarrow> (string \<rightharpoonup> string) \<Rightarrow> string option
     \<Rightarrow> (string \<rightharpoonup> string) \<times> string option" where
  "unmarshalMembers [] m e = (m, e)"
| "unmarshalMembers ((k, JString x) # kvs) m e = unmarshalMembers kvs (m(k \<mapsto> x)) e"
| "unmarshalMembers ((k, JNull) # kvs) m e = unmarshalMembers kvs (m(k \<mapsto> [])) e"
| "unmarshalMembers ((k, v) # kvs) m e =
     unmarshalMembers kvs (m(k \<mapsto> []))
       (case e of None \<Rightarrow> Some (UnmarshalTypeError v ''string'') | Some x \<Rightarrow> Some x)"

fun unmarshalMap :: "json option \<Rightarrow> (string \<rightharpoonup> string) \<times> string option" where
  "unmarshalMap None = (Map.empty, Some ''unexpected end of JSON input'')"
| "unmarshalMap (Some JNull) = (Map.empty, None)"
| "unmarshalMap (Some (JObject kvs)) = unmarshalMembers kvs Map.empty None"
| "unmarshalMap (Some v) = (Map.empty, Some (UnmarshalTypeError v ''map[string]string''))"

subsection \<open>The JSON-RPC client\<close>

record SyncProgress =
  StartingBlock :: uint64
  CurrentBlock :: uint64
  HighestBlock :: uint64

record jsonRPCRequest =
  Req_JSONRPC :: string
  Req_Method :: string
  Req_Params :: "json list"
  Req_ID :: int

record jsonRPCError =
  Err_Code :: int
  Err_Message :: string

record jsonRPCResponse =
  Resp_JSONRPC :: string
  Resp_Result :: "json option"
  Resp_Error :: "jsonRPCError option"
  Resp_ID :: int

text \<open>
  What \<^verbatim>\<open>httpClient.Post\<close> followed by \<^verbatim>\<open>io.ReadAll\<close> can give: the request fails
  (connection refused, timeout), reading the body fails, or a status code and a body
  arrive.
\<close>

datatype http_outcome =
    PostFailed string
  | ReadFailed string
  | Received int string

text \<open>
  The client: its endpoint and its HTTP transport. The transport is a function of the
  URL, the request and the state \<open>'s\<close> of the world outside the program, so that the node
  may answer each request differently. The request stands for its own serialisation:
  \<^verbatim>\<open>json.Marshal\<close> of a \<^verbatim>\<open>jsonRPCRequest\<close> whose parameters are JSON values does not fail.
\<close>

record 's Client =
  endpoint :: string
  httpClient :: "string \<Rightarrow> jsonRPCRequest \<Rightarrow> 's \<Rightarrow> http_outcome \<times> 's"

text \<open>
  \<^verbatim>\<open>call\<close>. Its first argument is \<^verbatim>\<open>json.Unmarshal(respBody, &rpcResp)\<close>, the library's
  decoder of a body into the envelope, giving the error message or the envelope.
\<close>

definition call ::
  "(string \<Rightarrow> string + jsonRPCResponse) \<Rightarrow> 's Client \<Rightarrow> string \<Rightarrow> json list \<Rightarrow> 's
     \<Rightarrow> (json option \<times> go_error option) \<times> 's" where
  "call unmarshal c method params s =
     (let req = \<lparr>Req_JSONRPC = ''2.0'', Req_Method = method, Req_Params = params, Req_ID = 1\<rparr>
      in case httpClient c (endpoint c) req s of
           (PostFailed err, s') \<Rightarrow> ((None, Some (RequestError (endpoint c) err)), s')
         | (ReadFailed err, s') \<Rightarrow> ((None, Some (ReadBodyError err)), s')
         | (Received StatusCode respBody, s') \<Rightarrow>
             if StatusCode \<noteq> 200 then ((None, Some (HTTPStatusError StatusCode respBody)), s')
             else (case unmarshal respBody of
                     Inl err \<Rightarrow> ((None, Some (UnmarshalResponseError err)), s')
                   | Inr rpcResp \<Rightarrow>
                       (case Resp_Error rpcResp of
                          Some e \<Rightarrow> ((None, Some (RemoteError (Err_Code e) (Err_Message e))), s')
                        | None \<Rightarrow> ((Resp_Result rpcResp, None), s'))))"

definition GetBlockNumber ::
  "(string \<Rightarrow> string + jsonRPCResponse) \<Rightarrow> 's Client \<Rightarrow> 's \<Rightarrow> (uint64 \<times> go_error option) \<times> 's" where
  "GetBlockNumber unmarshal c s =
     (case call unmarshal c ''eth_blockNumber'' [] s of
        ((result, Some err), s') \<Rightarrow> ((0, Some err), s')
      | ((result, None), s') \<Rightarrow>
          (case unmarshalString result of
             (hexBlock, Some err) \<Rightarrow> ((0, Some (UnmarshalBlockNumberError err)), s')
           | (hexBlock, None) \<Rightarrow> (parseHexUint64 hexBlock, s')))"

definition GetChainID ::
  "(string \<Rightarrow> string + jsonRPCResponse) \<Rightarrow> 's Client \<Rightarrow> 's \<Rightarrow> (uint64 \<times> go_error option) \<times> 's" where
  "GetChainID unmarshal c s =
     (case call unmarshal c ''eth_chainId'' [] s of
        ((result, Some err), s') \<Rightarrow> ((0, Some err), s')
      | ((result, None), s') \<Rightarrow>
          (case unmarshalString result of
             (hexChainID, Some err) \<Rightarrow> ((0, Some (UnmarshalChainIDError err)), s')
           | (hexChainID, None) \<Rightarrow> (parseHexUint64 hexChainID, s')))"

definition GetSyncStatus ::
  "(string \<Rightarrow> string + jsonRPCResponse) \<Rightarrow> 's Client \<Rightarrow> 's
     \<Rightarrow> (bool \<times> SyncProgress option \<times> go_error option) \<times> 's" where
  "GetSyncStatus unmarshal c s =
     (case call unmarshal c ''eth_syncing'' [] s of
        ((result, Some err), s') \<Rightarrow> ((False, None, Some err), s')
      | ((result, None), s') \<Rightarrow>
          (case unmarshalBool result of
             (syncing, None) \<Rightarrow> ((False, None, None), s')
           | (syncing, Some _) \<Rightarrow>
               (case unmarshalMap result of
                  (rawProgress, Some err) \<Rightarrow>
                    ((False, None, Some (UnmarshalSyncProgressError err)), s')
                | (rawProgress, None) \<Rightarrow>
                    (let progress = \<lparr>StartingBlock = 0, CurrentBlock = 0, HighestBlock = 0\<rparr>;
                         progress = (case rawProgress ''startingBlock'' of
                                       Some v \<Rightarrow> progress\<lparr>StartingBlock := fst (parseHexUint64 v)\<rparr>
                                     | None \<Rightarrow> progress);
                         progress = (case rawProgress ''currentBlock'' of
                                       Some v \<Rightarrow> progress\<lparr>CurrentBlock := fst (parseHexUint64 v)\<rparr>
                                     | None \<Rightarrow> progress);
                         progress = (case rawProgress ''highestBlock'' of
                                       Some v \<Rightarrow> progress\<lparr>HighestBlock := fst (parseHexUint64 v)\<rparr>
                                     | None \<Rightarrow> progress)
                     in ((True, Some progress, None), s')))))"

subsection \<open>Error messages\<close>

text \<open>The decimal text that \<^verbatim>\<open>%d\<close> prints.\<close>

fun utoa :: "nat \<Rightarrow> string" where
  "utoa n = (if n < 10 then [char_of (48 + n)] else utoa (n div 10) @ [char_of (48 + n mod 10)])"

declare utoa.simps [simp del]

definition itoa :: "int \<Rightarrow> string" where
  "itoa i = (if i < 0 then CHR ''-'' # utoa (nat (- i)) else utoa (nat i))"

text \<open>\<^verbatim>\<open>err.Error()\<close>, which \<^verbatim>\<open>%v\<close> prints: the format of each \<^verbatim>\<open>fmt.Errorf\<close>.\<close>

fun ErrorMsg :: "go_error \<Rightarrow> string" where
  "ErrorMsg (RequestError url err) = ''RPC request to '' @ url @ '': '' @ err"
| "ErrorMsg (ReadBodyError err) = ''read response body: '' @ err"
| "ErrorMsg (HTTPStatusError code body) = ''RPC returned HTTP '' @ itoa code @ '': '' @ body"
| "ErrorMsg (UnmarshalResponseError err) = ''unmarshal response: '' @ err"
| "ErrorMsg (RemoteError code msg) = ''RPC error '' @ itoa code @ '': '' @ msg"
| "ErrorMsg (UnmarshalBlockNumberError err) = ''unmarshal block number: '' @ err"
| "ErrorMsg (UnmarshalChainIDError err) = ''unmarshal chain id: '' @ err"
| "ErrorMsg (UnmarshalSyncProgressError err) = ''unmarshal sync progress: '' @ err"
| "ErrorMsg (InvalidHexError hex) = ''invalid hex value: '' @ hex"

subsection \<open>The Prometheus collector\<close>

text \<open>
  A metric sent on the channel: the fully-qualified name of its descriptor and its
  value. \<open>Float64_of_uint64 n\<close> stands for \<^verbatim>\<open>float64(n)\<close>; the conversion itself is not
  computed. \<^verbatim>\<open>Collect\<close> returns the metrics in the order sent and the lines it logged.
\<close>

datatype metric_value = Float64_of_uint64 uint64 | Float64 real

definition Collect ::
  "(string \<Rightarrow> string + jsonRPCResponse) \<Rightarrow> 's Client \<Rightarrow> 's
     \<Rightarrow> ((string \<times> metric_value) list \<times> string list) \<times> 's" where
  "Collect unmarshal c s =
     (let up = 1; ch = []; logged = [];
          ((block, err), s) = GetBlockNumber unmarshal c s;
          (logged, up) = (case err of
                            Some e \<Rightarrow> (logged @ [''error fetching block number: '' @ ErrorMsg e], 0)
                          | None \<Rightarrow> (logged, up));
          ch = ch @ [(''goat_block_height'', Float64_of_uint64 block)];
          ((chain, err), s) = GetChainID unmarshal c s;
          (logged, up) = (case err of
                            Some e \<Rightarrow> (logged @ [''error fetching chain id: '' @ ErrorMsg e], 0)
                          | None \<Rightarrow> (logged, up));
          ch = ch @ [(''goat_chain_id'', Float64_of_uint64 chain)];
          ((isSyncing, _, err), s) = GetSyncStatus unmarshal c s;
          (logged, up) = (case err of
                            Some e \<Rightarrow> (logged @ [''error fetching sync status: '' @ ErrorMsg e], 0)
                          | None \<Rightarrow> (logged, up));
          syncVal = (if isSyncing then 1 else 0);
          ch = ch @ [(''goat_syncing'', Float64 syncVal)];
          ch = ch @ [(''goat_rpc_up'', Float64 up)]
      in ((ch, logged), s))"

subsection \<open>The health endpoint\<close>

record syncProgress =
  starting_block :: uint64
  current_block :: uint64
  highest_block :: uint64

record healthResponse =
  Status :: string
  NodeEndpoint :: string
  BlockHeight :: uint64
  ChainID :: uint64
  Syncing :: bool
  SyncProgress :: "syncProgress option"
  Timestamp :: string
  Error :: string

text \<open>
  \<^verbatim>\<open>healthHandler\<close>, given the time stamp it reads from the clock: the response it
  encodes and the HTTP status it writes (503 when the status is not \<^verbatim>\<open>ok\<close>).
\<close>

definition healthHandler ::
  "(string \<Rightarrow> string + jsonRPCResponse) \<Rightarrow> 's Client \<Rightarrow> string \<Rightarrow> string \<Rightarrow> 's
     \<Rightarrow> (healthResponse \<times> int) \<times> 's" where
  "healthHandler unmarshal client url now s =
     (let resp = \<lparr>Status = ''ok'', NodeEndpoint = url, BlockHeight = 0, ChainID = 0,
                  Syncing = False, SyncProgress = None, Timestamp = now, Error = []\<rparr>;
          ((block, err), s) = GetBlockNumber unmarshal client s;
          resp = (case err of
                    Some e \<Rightarrow> resp\<lparr>Status := ''degraded'', Error := ''block number: '' @ ErrorMsg e\<rparr>
                  | None \<Rightarrow> resp);
          resp = resp\<lparr>BlockHeight := block\<rparr>;
          ((chainID, err), s) = GetChainID unmarshal client s;
          resp = (case err of
                    Some e \<Rightarrow>
                      (let resp = resp\<lparr>Status := ''degraded''\<rparr>;
                           resp = (if Error resp \<noteq> [] then resp\<lparr>Error := Error resp @ ''; ''\<rparr>
                                   else resp)
                       in resp\<lparr>Error := Error resp @ ''chain id: '' @ ErrorMsg e\<rparr>)
                  | None \<Rightarrow> resp);
          resp = resp\<lparr>ChainID := chainID\<rparr>;
          ((syncing, progress, err), s) = GetSyncStatus unmarshal client s;
          resp = (case err of
                    Some e \<Rightarrow>
                      (let resp = resp\<lparr>Status := ''degraded''\<rparr>;
                           resp = (if Error resp \<noteq> [] then resp\<lparr>Error := Error resp @ ''; ''\<rparr>
                                   else resp)
                       in resp\<lparr>Error := Error resp @ ''sync status: '' @ ErrorMsg e\<rparr>)
                  | None \<Rightarrow> resp);
          resp = resp\<lparr>Syncing := syncing\<rparr>;
          resp = (case progress of
                    Some p \<Rightarrow>
                      resp\<lparr>SyncProgress := Some \<lparr>starting_block = StartingBlock p,
                                                  current_block = CurrentBlock p,
                                                  highest_block = HighestBlock p\<rparr>\<rparr>
                  | None \<Rightarrow> resp);
          statusCode = (if Status resp \<noteq> ''ok'' then 503 else 200)
      in ((resp, statusCode), s))"

section \<open>Notions used in the statements\<close>

subsection \<open>Hex strings\<close>

text \<open>The hexadecimal digits: \<^verbatim>\<open>0-9\<close>, \<^verbatim>\<open>a-f\<close>, \<^verbatim>\<open>A-F\<close>.\<close>

definition isHexDigit :: "char \<Rightarrow> bool" where
  "isHexDigit ch =
     (let c = (of_char ch :: nat) in
      (48 \<le> c \<and> c \<le> 57) \<or> (97 \<le> c \<and> c \<le> 102) \<or> (65 \<le> c \<and> c \<le> 70))"

text \<open>The number that a string of hexadecimal digits denotes.\<close>

definition hexValue :: "string \<Rightarrow> nat" where
  "hexValue ds = foldl (\<lambda>a c. a * 16 + digitVal 16 c) 0 ds"

text \<open>A string without its leading sign, when it has one.\<close>

definition dropSign :: "string \<Rightarrow> string" where
  "dropSign r =
     (case r of [] \<Rightarrow> [] | ch # r' \<Rightarrow> if ch = CHR ''-'' \<or> ch = CHR ''+'' then r' else r)"

text \<open>
  The encoder of the specification's round-trip property (the program has none):
  lowercase hexadecimal without leading zeros, \<^verbatim>\<open>0\<close> for zero.
\<close>

definition hexDigitChar :: "nat \<Rightarrow> char" where
  "hexDigitChar d = (if d < 10 then char_of (48 + d) else char_of (87 + d))"

fun hexEncodeNat :: "nat \<Rightarrow> string" where
  "hexEncodeNat n =
     (if n < 16 then [hexDigitChar n] else hexEncodeNat (n div 16) @ [hexDigitChar (n mod 16)])"

declare hexEncodeNat.simps [simp del]

definition hexEncode :: "uint64 \<Rightarrow> string" where
  "hexEncode n = hexEncodeNat (unat n)"

subsection \<open>The error taxonomy of the specification\<close>

text \<open>
  The program's errors are untyped messages. The specification sorts them into four
  classes; each \<^verbatim>\<open>fmt.Errorf\<close> of the client falls into one of them: failures of the
  HTTP exchange, a body that is no envelope, an error reported by the node, and a result
  that cannot be decoded.
\<close>

datatype error_class = TransportError | ProtocolError | RPCError | DecodeError

fun classify :: "go_error \<Rightarrow> error_class" where
  "classify (RequestError url err) = TransportError"
| "classify (ReadBodyError err) = TransportError"
| "classify (HTTPStatusError code body) = TransportError"
| "classify (UnmarshalResponseError err) = ProtocolError"
| "classify (RemoteError code msg) = RPCError"
| "classify (UnmarshalBlockNumberError err) = DecodeError"
| "classify (UnmarshalChainIDError err) = DecodeError"
| "classify (UnmarshalSyncProgressError err) = DecodeError"
| "classify (InvalidHexError hex) = DecodeError"

subsection \<open>The error records of a poll\<close>

text \<open>
  The specification's \<^verbatim>\<open>perFieldErrors\<close>: for each of the three calls that failed, in
  the order of the calls, the field and the error message. The program keeps no such
  list; the collector logs one line for each record and the health endpoint joins them
  into one text.
\<close>

definition perFieldErrors ::
  "go_error option \<Rightarrow> go_error option \<Rightarrow> go_error option \<Rightarrow> (string \<times> string) list" where
  "perFieldErrors e1 e2 e3 =
     (case e1 of Some e \<Rightarrow> [(''block number'', ErrorMsg e)] | None \<Rightarrow> []) @
     (case e2 of Some e \<Rightarrow> [(''chain id'', ErrorMsg e)] | None \<Rightarrow> []) @
     (case e3 of Some e \<Rightarrow> [(''sync status'', ErrorMsg e)] | None \<Rightarrow> [])"

fun joinWith :: "string \<Rightarrow> string list \<Rightarrow> string" where
  "joinWith sep [] = []"
| "joinWith sep [x] = x"
| "joinWith sep (x # y # ys) = x @ sep @ joinWith sep (y # ys)"

text \<open>The health endpoint's copy of a progress record.\<close>

definition healthProgress :: "SyncProgress \<Rightarrow> syncProgress" where
  "healthProgress p =
     \<lparr>starting_block = StartingBlock p, current_block = CurrentBlock p,
      highest_block = HighestBlock p\<rparr>"

subsection \<open>A node that records the requests it receives\<close>

text \<open>
  A client whose world is the list of the methods posted so far. The node's answer may
  depend on that history and on the request.
\<close>

definition recordingClient ::
  "string \<Rightarrow> (string list \<Rightarrow> jsonRPCRequest \<Rightarrow> http_outcome) \<Rightarrow> string list Client" where
  "recordingClient url node =
     \<lparr>endpoint = url, httpClient = (\<lambda>u req posted. (node posted req, posted @ [Req_Method req]))\<rparr>"

text \<open>The request that \<^verbatim>\<open>call\<close> builds.\<close>

definition request :: "string \<Rightarrow> json list \<Rightarrow> jsonRPCRequest" where
  "request method params =
     \<lparr>Req_JSONRPC = ''2.0'', Req_Method = method, Req_Params = params, Req_ID = 1\<rparr>"

text \<open>The exchanges after which \<^verbatim>\<open>call\<close> does not look at the body: the request or the
  read failed, or the status is not 200.\<close>

fun exchangeFailed :: "http_outcome \<Rightarrow> bool" where
  "exchangeFailed (PostFailed err) = True"
| "exchangeFailed (ReadFailed err) = True"
| "exchangeFailed (Received code body) = (code \<noteq> 200)"

subsection \<open>Concrete nodes\<close>

text \<open>
  Bodies a node may send and the envelopes \<^verbatim>\<open>json.Unmarshal\<close> makes of them; any other
  body is rejected.
\<close>

definition bodyBlock :: string where
  \<open>bodyBlock = ''{"jsonrpc":"2.0","id":1,"result":"0x9c2e40"}''\<close>

definition bodyChain :: string where
  \<open>bodyChain = ''{"jsonrpc":"2.0","id":1,"result":"0x929"}''\<close>

definition bodyTrue :: string where
  \<open>bodyTrue = ''{"jsonrpc":"2.0","id":1,"result":true}''\<close>

definition bodyCurrentOnly :: string where
  \<open>bodyCurrentOnly = ''{"jsonrpc":"2.0","id":1,"result":{"currentBlock":"0x5"}}''\<close>

definition bodyBadField :: string where
  \<open>bodyBadField =
     ''{"jsonrpc":"2.0","id":1,"result":{"startingBlock":"0x1","currentBlock":"zz","highestBlock":"0xa"}}''\<close>

definition bodyBoth :: string where
  \<open>bodyBoth =
     ''{"jsonrpc":"2.0","id":1,"result":"0x10","error":{"code":-32000,"message":"boom"}}''\<close>

definition envelope :: "json option \<Rightarrow> jsonRPCError option \<Rightarrow> jsonRPCResponse" where
  "envelope r e = \<lparr>Resp_JSONRPC = ''2.0'', Resp_Result = r, Resp_Error = e, Resp_ID = 1\<rparr>"

definition unmarshalBody :: "string \<Rightarrow> string + jsonRPCResponse" where
  "unmarshalBody b =
     (if b = bodyBlock then Inr (envelope (Some (JString ''0x9c2e40'')) None)
      else if b = bodyChain then Inr (envelope (Some (JString ''0x929'')) None)
      else if b = bodyTrue then Inr (envelope (Some (JBool True)) None)
      else if b = bodyCurrentOnly then
        Inr (envelope (Some (JObject [(''currentBlock'', JString ''0x5'')])) None)
      else if b = bodyBadField then
        Inr (envelope (Some (JObject [(''startingBlock'', JString ''0x1''),
                                       (''currentBlock'', JString ''zz''),
                                       (''highestBlock'', JString ''0xa'')])) None)
      else if b = bodyBoth then
        Inr (envelope (Some (JString ''0x10''))
               (Some \<lparr>Err_Code = - 32000, Err_Message = ''boom''\<rparr>))
      else Inl ''invalid character'')"

text \<open>
  A node that answers \<^verbatim>\<open>eth_blockNumber\<close> with the first outcome, \<^verbatim>\<open>eth_chainId\<close> with
  the second and any other method with the third.
\<close>

definition node3 ::
  "http_outcome \<Rightarrow> http_outcome \<Rightarrow> http_outcome \<Rightarrow> string list \<Rightarrow> jsonRPCRequest \<Rightarrow> http_outcome" where
  "node3 a b c posted req =
     (if Req_Method req = ''eth_blockNumber'' then a
      else if Req_Method req = ''eth_chainId'' then b
      else c)"

definition nodeURL :: string where
  "nodeURL = ''http://node:8545''"

section \<open>The hex decoder\<close>

subsection \<open>What the decoder accepts\<close>

lemma digitVal_hex: "digitVal 16 ch < 16 \<longleftrightarrow> isHexDigit ch"
  by (auto simp: digitVal_def isHexDigit_def Let_def)

lemma scanDigits_split:
  "scanDigits b s z n =
     (foldl (\<lambda>a c. a * b + digitVal b c) z (takeWhile (\<lambda>c. digitVal b c < b) s),
      n + length (takeWhile (\<lambda>c. digitVal b c < b) s),
      dropWhile (\<lambda>c. digitVal b c < b) s)"
  by (induction s arbitrary: z n) (auto simp: not_le)

lemma scanDigits_hex:
  "scanDigits 16 s 0 0 =
     (hexValue (takeWhile isHexDigit s), length (takeWhile isHexDigit s), dropWhile isHexDigit s)"
  by (simp add: scanDigits_split hexValue_def digitVal_hex)

lemma scanSign_dropSign:
  "scanSign r = (if r = [] then None else Some (hd r = CHR ''-'', dropSign r))"
  by (auto simp: scanSign_def dropSign_def split: list.splits)

lemma SetString_hex:
  "SetString r 16 =
     (if dropSign r \<noteq> [] \<and> list_all isHexDigit (dropSign r)
      then Some \<lparr>Int_neg = (hexValue (dropSign r) \<noteq> 0 \<and> hd r = CHR ''-''), Int_abs = hexValue (dropSign r)\<rparr>
      else None)"
proof (cases "r = []")
  case True
  then show ?thesis by (simp add: SetString_def scanSign_def dropSign_def)
next
  case False
  let ?d = "dropSign r"
  show ?thesis
  proof (cases "list_all isHexDigit ?d")
    case True
    then have tw: "takeWhile isHexDigit ?d = ?d" "dropWhile isHexDigit ?d = []"
      by (simp_all add: list_all_iff)
    from False True show ?thesis
      by (simp add: SetString_def scanSign_dropSign scanDigits_hex tw)
  next
    case nh: False
    then have dw: "dropWhile isHexDigit ?d \<noteq> []"
      by (simp add: list_all_iff)
    from False nh show ?thesis
      by (auto simp: SetString_def scanSign_dropSign scanDigits_hex dw list_all_iff)
  qed
qed

lemma parseHexUint64_hex:
  "parseHexUint64 s =
     (if dropSign (stripHexPrefix s) \<noteq> [] \<and> list_all isHexDigit (dropSign (stripHexPrefix s))
      then (word_of_nat (hexValue (dropSign (stripHexPrefix s))), None)
      else (0, Some (InvalidHexError s)))"
  by (simp add: parseHexUint64_def SetString_hex Uint64_def)

lemma digitVal_hexDigitChar: "d < 16 \<Longrightarrow> digitVal 16 (hexDigitChar d) = d"
  by (auto simp: digitVal_def hexDigitChar_def Let_def)

lemma isHexDigit_hexDigitChar: "d < 16 \<Longrightarrow> isHexDigit (hexDigitChar d)"
  using digitVal_hexDigitChar [of d] digitVal_hex [of "hexDigitChar d"] by simp

lemma hexEncodeNat_digits: "list_all isHexDigit (hexEncodeNat n)"
proof (induction n rule: hexEncodeNat.induct)
  case (1 n)
  show ?case
  proof (cases "n < 16")
    case True
    then show ?thesis by (subst hexEncodeNat.simps) (simp add: isHexDigit_hexDigitChar)
  next
    case False
    with 1 show ?thesis by (subst hexEncodeNat.simps) (simp add: isHexDigit_hexDigitChar)
  qed
qed

lemma hexEncodeNat_nonempty: "hexEncodeNat n \<noteq> []"
  by (subst hexEncodeNat.simps) simp

lemma hexValue_snoc: "hexValue (ds @ [c]) = hexValue ds * 16 + digitVal 16 c"
  by (simp add: hexValue_def)

lemma hexValue_hexEncodeNat: "hexValue (hexEncodeNat n) = n"
proof (induction n rule: hexEncodeNat.induct)
  case (1 n)
  show ?case
  proof (cases "n < 16")
    case True
    then show ?thesis
      by (subst hexEncodeNat.simps) (simp add: hexValue_def digitVal_hexDigitChar)
  next
    case False
    with 1 show ?thesis
      by (subst hexEncodeNat.simps) (simp add: hexValue_snoc digitVal_hexDigitChar)
  qed
qed

lemma not_hex_chars:
  "\<not> isHexDigit CHR ''x''" "\<not> isHexDigit CHR ''X''" "\<not> isHexDigit CHR ''+''" "\<not> isHexDigit CHR ''-''"
  by (simp_all add: isHexDigit_def)

lemma hex_digits_no_prefix:
  assumes "list_all isHexDigit ds"
  shows "stripHexPrefix ds = ds" and "dropSign ds = ds"
proof -
  show "stripHexPrefix ds = ds"
  proof (cases ds)
    case Nil then show ?thesis by (simp add: stripHexPrefix_def)
  next
    case (Cons a as)
    show ?thesis
    proof (cases as)
      case Nil with Cons show ?thesis by (simp add: stripHexPrefix_def)
    next
      case (Cons b bs)
      with assms \<open>ds = a # as\<close> have "isHexDigit b" by simp
      then have "b \<noteq> CHR ''x''" "b \<noteq> CHR ''X''" using not_hex_chars by auto
      with Cons \<open>ds = a # as\<close> show ?thesis by (simp add: stripHexPrefix_def)
    qed
  qed
  show "dropSign ds = ds"
  proof (cases ds)
    case Nil then show ?thesis by (simp add: dropSign_def)
  next
    case (Cons a as)
    with assms have "isHexDigit a" by simp
    then have "a \<noteq> CHR ''+''" "a \<noteq> CHR ''-''" using not_hex_chars by auto
    with Cons show ?thesis by (simp add: dropSign_def)
  qed
qed

lemma strip_prefixed: "stripHexPrefix (''0x'' @ ds) = ds" "stripHexPrefix (''0X'' @ ds) = ds"
  by (simp_all add: stripHexPrefix_def)

lemma parse_hex_digits:
  assumes "ds \<noteq> []" "list_all isHexDigit ds"
  shows "parseHexUint64 ds = (word_of_nat (hexValue ds), None)"
    and "parseHexUint64 (''0x'' @ ds) = (word_of_nat (hexValue ds), None)"
    and "parseHexUint64 (''0X'' @ ds) = (word_of_nat (hexValue ds), None)"
  using assms hex_digits_no_prefix [OF assms(2)]
  by (simp_all only: parseHexUint64_hex strip_prefixed if_True simp_thms)

subsection \<open>Claims about the decoder\<close>

text \<open>
  C9: for every unsigned 64-bit integer \<open>n\<close>, its lowercase hexadecimal text without
  leading zeros decodes to \<open>n\<close> without error, whether it is given bare, with \<^verbatim>\<open>0x\<close> or
  with \<^verbatim>\<open>0X\<close> in front: decoding after encoding is the identity.
\<close>

theorem parseHexUint64_hexEncode:
  "parseHexUint64 (hexEncode n) = (n, None) \<and>
   parseHexUint64 (''0x'' @ hexEncode n) = (n, None) \<and>
   parseHexUint64 (''0X'' @ hexEncode n) = (n, None)"
  using parse_hex_digits [OF hexEncodeNat_nonempty hexEncodeNat_digits, of "unat n"]
  by (simp add: hexEncode_def hexValue_hexEncodeNat)

text \<open>
  C2, as stated, fails: the text \<^verbatim>\<open>0x10000000000000000\<close> denotes \<open>2 ^ 64\<close>, which
  exceeds \<open>2 ^ 64 - 1\<close>, and the decoder returns 0 with no error.
\<close>

theorem parseHexUint64_overflow_counterexample:
  "2 ^ 64 - 1 < hexValue ''10000000000000000'' \<and>
   parseHexUint64 ''0x10000000000000000'' = (0, None)"
  by (simp add: parseHexUint64_hex stripHexPrefix_def dropSign_def isHexDigit_def
        hexValue_def digitVal_def)

text \<open>
  C2, amended: for every non-empty string of hexadecimal digits whose value exceeds
  \<open>2 ^ 64 - 1\<close>, bare or behind \<^verbatim>\<open>0x\<close> or \<^verbatim>\<open>0X\<close>, the decoder returns no error and
  the value reduced modulo \<open>2 ^ 64\<close>, that is its low 64 bits.
\<close>

theorem parseHexUint64_overflow_wraps:
  assumes "ds \<noteq> []" and "list_all isHexDigit ds" and "2 ^ 64 - 1 < hexValue ds"
    and "p = [] \<or> p = ''0x'' \<or> p = ''0X''"
  shows "snd (parseHexUint64 (p @ ds)) = None \<and>
         unat (fst (parseHexUint64 (p @ ds))) = hexValue ds mod 2 ^ 64"
proof -
  have "parseHexUint64 (p @ ds) = (word_of_nat (hexValue ds), None)"
    using assms(4) parse_hex_digits [OF assms(1,2)] by auto
  then show ?thesis by (simp add: unat_of_nat)
qed

theorem parseHexUint64_overflow_wraps_witness:
  "snd (parseHexUint64 ''0x1000000000000000a'') = None \<and>
   unat (fst (parseHexUint64 ''0x1000000000000000a'')) = 10"
proof -
  have h1: "''1000000000000000a'' \<noteq> []" by simp
  have h2: "list_all isHexDigit ''1000000000000000a''" by (simp add: isHexDigit_def)
  have v: "hexValue ''1000000000000000a'' = 2 ^ 64 + 10"
    by (simp add: hexValue_def digitVal_def)
  have h3: "2 ^ 64 - 1 < hexValue ''1000000000000000a''" by (simp add: v)
  have h4: "''0x'' = [] \<or> ''0x'' = ''0x'' \<or> ''0x'' = ''0X''" by simp
  show ?thesis
    using parseHexUint64_overflow_wraps [OF h1 h2 h3 h4] by (simp add: v)
qed

text \<open>
  C8, as stated, fails: what is left of \<^verbatim>\<open>0x-ff\<close> after the prefix contains the
  character \<^verbatim>\<open>-\<close>, which is no hexadecimal digit, and the decoder returns 255 with no
  error, since \<^verbatim>\<open>SetString\<close> reads a leading sign.
\<close>

theorem parseHexUint64_sign_counterexample:
  "CHR ''-'' \<in> set (stripHexPrefix ''0x-ff'') \<and> \<not> isHexDigit CHR ''-'' \<and>
   parseHexUint64 ''0x-ff'' = (255, None)"
  by (simp add: parseHexUint64_hex stripHexPrefix_def dropSign_def isHexDigit_def
        hexValue_def digitVal_def)

text \<open>
  C8, amended: for every input that, after the optional \<^verbatim>\<open>0x\<close>/\<^verbatim>\<open>0X\<close> prefix and
  then one optional leading sign \<^verbatim>\<open>+\<close> or \<^verbatim>\<open>-\<close> are taken off, contains a character
  that is not a hexadecimal digit, the decoder returns 0 and the error
  \<^verbatim>\<open>invalid hex value\<close>, a DecodeError.
\<close>

theorem parseHexUint64_rejects_non_hex:
  assumes "c \<in> set (dropSign (stripHexPrefix s))" and "\<not> isHexDigit c"
  shows "parseHexUint64 s = (0, Some (InvalidHexError s)) \<and>
         map_option classify (snd (parseHexUint64 s)) = Some DecodeError"
proof -
  from assms have "\<not> list_all isHexDigit (dropSign (stripHexPrefix s))"
    by (auto simp: list_all_iff)
  then show ?thesis by (simp add: parseHexUint64_hex)
qed

theorem parseHexUint64_rejects_non_hex_witness:
  "parseHexUint64 ''0x12g4'' = (0, Some (InvalidHexError ''0x12g4'')) \<and>
   map_option classify (snd (parseHexUint64 ''0x12g4'')) = Some DecodeError"
proof -
  have h1: "CHR ''g'' \<in> set (dropSign (stripHexPrefix ''0x12g4''))"
    by (simp add: stripHexPrefix_def dropSign_def)
  have h2: "\<not> isHexDigit CHR ''g''" by (simp add: isHexDigit_def)
  show ?thesis using parseHexUint64_rejects_non_hex [OF h1 h2] .
qed


end
